theory Spec2Isabelle
  imports Complex_Main
begin

section \<open>Python values and built-ins used by \<open>newModel.py\<close>\<close>

text \<open>
  Losses are Python floats; they are modelled as \<^typ>\<open>real\<close>, so rounding, infinities and
  NaN are outside the model.  Epoch numbers, the batch interval and the minimum-epoch floor
  are Python's unbounded integers, hence \<^typ>\<open>int\<close>; \<open>mod\<close> on \<^typ>\<open>int\<close> rounds
  towards minus infinity as Python's \<open>%\<close> does.  Every exception an expression of the
  callback can raise is a value of \<open>error\<close>.
\<close>

datatype error = ValueError | ZeroDivisionError | IndexError

text \<open>
  A slice bound \<open>i\<close> of a list of length \<open>n\<close>: a negative bound counts from the end, and
  both kinds are clamped to \<open>0 .. n\<close>.
\<close>

definition slice_bound :: "nat \<Rightarrow> int \<Rightarrow> nat" where
  "slice_bound n i = (if i < 0 then nat (int n + i) else min n (nat i))"

text \<open>\<open>xs[i:j]\<close>; it is empty when the upper bound is not above the lower one.\<close>

definition py_slice :: "'a list \<Rightarrow> int \<Rightarrow> int \<Rightarrow> 'a list" where
  "py_slice xs i j =
     take (slice_bound (length xs) j - slice_bound (length xs) i)
       (drop (slice_bound (length xs) i) xs)"

text \<open>\<open>xs[-1]\<close> raises IndexError on an empty list.\<close>

definition py_last :: "'a list \<Rightarrow> error + 'a" where
  "py_last xs = (if xs = [] then Inl IndexError else Inr (last xs))"

text \<open>\<open>min(xs)\<close> raises ValueError on an empty list and keeps the first smallest element.\<close>

fun py_min :: "real list \<Rightarrow> error + real" where
  "py_min [] = Inl ValueError"
| "py_min (x # xs) = Inr (fold (\<lambda>y m. if y < m then y else m) xs x)"

text \<open>\<open>sum(xs)\<close> adds from the left, starting at 0.\<close>

definition py_sum :: "real list \<Rightarrow> real" where
  "py_sum xs = foldl (+) 0 xs"

text \<open>Float division and integer modulo raise ZeroDivisionError on a zero divisor.\<close>

definition py_div :: "real \<Rightarrow> real \<Rightarrow> error + real" where
  "py_div a b = (if b = 0 then Inl ZeroDivisionError else Inr (a / b))"

definition py_mod :: "int \<Rightarrow> int \<Rightarrow> error + int" where
  "py_mod a b = (if b = 0 then Inl ZeroDivisionError else Inr (a mod b))"


section \<open>The configuration object\<close>

text \<open>
  The attributes of \<open>config\<close> that \<open>Model\<close> reads, apart from \<open>data_dir\<close> and
  \<open>batch_size\<close>, which only reach the framework's image loaders.
\<close>

record config =
  input_height :: int
  input_width :: int
  input_channels :: int
  num_classes :: int
  verbose :: bool
  log_file :: string
  bayesian :: bool
  learning_rate :: real
  rho :: real
  epsilon :: real
  decay :: real
  model_tuning :: bool
  mode :: string
  model_path :: string
  max_epochs :: int
  min_epochs :: int
  batch_epochs :: int
  training_threshold :: real


section \<open>The EarlyStop callback\<close>

text \<open>
  The \<open>logs\<close> dictionary of an epoch.  \<open>Model.train\<close> compiles the network with the
  accuracy metric and fits it with validation data, so the framework passes the keys
  \<open>loss\<close>, \<open>val_acc\<close> and \<open>val_loss\<close>, each a float.
\<close>

record logs =
  loss :: real
  val_acc :: real
  val_loss :: real

text \<open>
  What the callback writes: the per-epoch message handed to \<open>log_fn\<close> (epoch number as
  shown, training loss, validation accuracy, validation loss; the elapsed wall-clock time of
  the message is left out), and the two lines it prints itself.
\<close>

datatype line =
  EpochMessage int real real real
  | TrainingProgress real
  | StoppedAtEpoch int

text \<open>
  The callback object.  \<open>stop_training\<close> is the flag of \<open>self.model\<close>, the only attribute of
  the network the callback touches; \<open>logged\<close> is what went to \<open>log_fn\<close> and \<open>printed\<close>
  what went to \<open>print\<close>, oldest first.
\<close>

record EarlyStop =
  val_losses :: "real list"
  train_losses :: "real list"
  min_epochs :: int
  batch :: int
  target :: real
  stop_training :: bool
  logged :: "line list"
  printed :: "line list"

text \<open>\<open>EarlyStop.__init__\<close>, with the network's flag as the framework sets it before fitting.\<close>

definition EarlyStop_init :: "int \<Rightarrow> int \<Rightarrow> real \<Rightarrow> EarlyStop" where
  "EarlyStop_init m b t =
     \<lparr>val_losses = [], train_losses = [], min_epochs = m, batch = b, target = t,
      stop_training = False, logged = [], printed = []\<rparr>"

text \<open>Lines 132 to 139: the message is logged and both losses are appended.\<close>

definition record_epoch :: "EarlyStop \<Rightarrow> int \<Rightarrow> logs \<Rightarrow> EarlyStop" where
  "record_epoch s epoch lg =
     s\<lparr>logged := logged s @ [EpochMessage (epoch + 1) (loss lg) (val_acc lg) (val_loss lg)],
       val_losses := val_losses s @ [val_loss lg],
       train_losses := train_losses s @ [loss lg]\<rparr>"

text \<open>
  Line 140: \<open>(epoch + 1) % self.batch == 0 and (epoch + 1) >= self.min_epochs\<close>.  The
  modulo is evaluated first and raises when the batch interval is 0.
\<close>

definition due :: "EarlyStop \<Rightarrow> int \<Rightarrow> error + bool" where
  "due s epoch =
     (case py_mod (epoch + 1) (batch s) of
        Inl e \<Rightarrow> Inl e
      | Inr r \<Rightarrow> Inr (r = 0 \<and> epoch + 1 \<ge> min_epochs s))"

text \<open>Line 141: \<open>100 * ((self.val_losses[-1] / min(self.val_losses[:-1])) - 1)\<close>.\<close>

definition g_loss :: "EarlyStop \<Rightarrow> error + real" where
  "g_loss s =
     (case py_last (val_losses s) of
        Inl e \<Rightarrow> Inl e
      | Inr v \<Rightarrow>
          (case py_min (py_slice (val_losses s) 0 (- 1)) of
             Inl e \<Rightarrow> Inl e
           | Inr m \<Rightarrow>
               (case py_div v m of
                  Inl e \<Rightarrow> Inl e
                | Inr q \<Rightarrow> Inr (100 * (q - 1)))))"

text \<open>Line 142: \<open>self.train_losses[-(self.batch+1):-1]\<close>, the window of the sum.\<close>

definition recent_window :: "EarlyStop \<Rightarrow> real list" where
  "recent_window s = py_slice (train_losses s) (- (batch s + 1)) (- 1)"

text \<open>
  Line 143: \<open>self.train_losses[--(self.batch+1):-1]\<close>, the window of the minimum, with
  both unary minus signs of the source.
\<close>

definition denominator_window :: "EarlyStop \<Rightarrow> real list" where
  "denominator_window s = py_slice (train_losses s) (- (- (batch s + 1))) (- 1)"

text \<open>
  Lines 142 and 143:
  \<open>1000 * ((sum(recent window) / (2 * min(denominator window))) - 1)\<close>.
\<close>

definition t_progress :: "EarlyStop \<Rightarrow> error + real" where
  "t_progress s =
     (let total = py_sum (recent_window s) in
      case py_min (denominator_window s) of
        Inl e \<Rightarrow> Inl e
      | Inr m \<Rightarrow>
          (case py_div total (2 * m) of
             Inl e \<Rightarrow> Inl e
           | Inr q \<Rightarrow> Inr (1000 * (q - 1))))"

text \<open>The quotient \<open>g_loss / t_progress\<close> of lines 144 and 145, computed exactly.\<close>

definition progress_quotient :: "EarlyStop \<Rightarrow> error + real" where
  "progress_quotient s =
     (case g_loss s of
        Inl e \<Rightarrow> Inl e
      | Inr g \<Rightarrow>
          (case t_progress s of
             Inl e \<Rightarrow> Inl e
           | Inr t \<Rightarrow> py_div g t))"

text \<open>
  Lines 141 to 147, on the callback after the appends.  An exception leaves the object as it
  was when it was raised.
\<close>

definition decide :: "EarlyStop \<Rightarrow> int \<Rightarrow> (error + unit) \<times> EarlyStop" where
  "decide s epoch =
     (case progress_quotient s of
        Inl e \<Rightarrow> (Inl e, s)
      | Inr q \<Rightarrow>
          (let s' = s\<lparr>printed := printed s @ [TrainingProgress q]\<rparr> in
           if q > target s'
           then (Inr (), s'\<lparr>printed := printed s' @ [StoppedAtEpoch (epoch + 1)],
                            stop_training := True\<rparr>)
           else (Inr (), s')))"

text \<open>\<open>EarlyStop.on_epoch_end\<close>: the outcome of the call and the callback afterwards.\<close>

definition on_epoch_end :: "EarlyStop \<Rightarrow> int \<Rightarrow> logs \<Rightarrow> (error + unit) \<times> EarlyStop" where
  "on_epoch_end s epoch lg =
     (let s' = record_epoch s epoch lg in
      case due s' epoch of
        Inl e \<Rightarrow> (Inl e, s')
      | Inr False \<Rightarrow> (Inr (), s')
      | Inr True \<Rightarrow> decide s' epoch)"

text \<open>
  The calls the framework makes during one fit: \<open>on_epoch_end\<close> for epoch \<open>k\<close>, \<open>k + 1\<close>,
  ... with that epoch's logs, on the same callback object.  An exception ends the
  sequence.
\<close>

fun run_epochs :: "EarlyStop \<Rightarrow> nat \<Rightarrow> logs list \<Rightarrow> (error + unit) \<times> EarlyStop" where
  "run_epochs s k [] = (Inr (), s)"
| "run_epochs s k (lg # rest) =
     (case on_epoch_end s (int k) lg of
        (Inl e, s') \<Rightarrow> (Inl e, s')
      | (Inr u, s') \<Rightarrow> run_epochs s' (Suc k) rest)"

text \<open>
  An epoch boundary at which the decision is due and the quotient \<open>g_loss / t_progress\<close>,
  computed without an exception, is above the target.
\<close>

definition exceeds_target :: "EarlyStop \<Rightarrow> int \<Rightarrow> logs \<Rightarrow> bool" where
  "exceeds_target s epoch lg =
     (due (record_epoch s epoch lg) epoch = Inr True \<and>
      (case progress_quotient (record_epoch s epoch lg) of
         Inl e \<Rightarrow> False
       | Inr q \<Rightarrow> q > target s))"

text \<open>
  The definitions above compute the two ratios and their quotient exactly.  The program
  computes them in floating point, where every operation rounds, so the value it compares
  with the target can differ from the exact one in the last digits.  With \<open>rnd\<close> for the
  rounding applied to the exact result of each operation, lines 141 to 145 are as
  follows; taking the identity for \<open>rnd\<close> gives the exact definitions back.
\<close>

definition g_loss_rounded :: "(real \<Rightarrow> real) \<Rightarrow> EarlyStop \<Rightarrow> error + real" where
  "g_loss_rounded rnd s =
     (case py_last (val_losses s) of
        Inl e \<Rightarrow> Inl e
      | Inr v \<Rightarrow>
          (case py_min (py_slice (val_losses s) 0 (- 1)) of
             Inl e \<Rightarrow> Inl e
           | Inr m \<Rightarrow>
               (if m = 0 then Inl ZeroDivisionError
                else Inr (rnd (100 * rnd (rnd (v / m) - 1))))))"

definition t_progress_rounded :: "(real \<Rightarrow> real) \<Rightarrow> EarlyStop \<Rightarrow> error + real" where
  "t_progress_rounded rnd s =
     (let total = foldl (\<lambda>a x. rnd (a + x)) 0 (recent_window s) in
      case py_min (denominator_window s) of
        Inl e \<Rightarrow> Inl e
      | Inr m \<Rightarrow>
          (if rnd (2 * m) = 0 then Inl ZeroDivisionError
           else Inr (rnd (1000 * rnd (rnd (total / rnd (2 * m)) - 1)))))"

definition progress_quotient_rounded :: "(real \<Rightarrow> real) \<Rightarrow> EarlyStop \<Rightarrow> error + real" where
  "progress_quotient_rounded rnd s =
     (case g_loss_rounded rnd s of
        Inl e \<Rightarrow> Inl e
      | Inr g \<Rightarrow>
          (case t_progress_rounded rnd s of
             Inl e \<Rightarrow> Inl e
           | Inr t \<Rightarrow> (if t = 0 then Inl ZeroDivisionError else Inr (rnd (g / t)))))"

text \<open>
  The rest of the callback does no arithmetic on the losses.  It is given here for any
  evaluation \<open>Q\<close> of the quotient \<open>g_loss / t_progress\<close> on the callback after the appends
  (an exception or a value), so that what is proved of it holds for the exact quotient and
  for the rounded one alike: lines 141 to 147, \<open>on_epoch_end\<close>, the calls of one fit, and
  the epoch boundaries at which the decision is due and the quotient is above the target.
\<close>

definition decide_with ::
  "(EarlyStop \<Rightarrow> error + real) \<Rightarrow> EarlyStop \<Rightarrow> int \<Rightarrow> (error + unit) \<times> EarlyStop" where
  "decide_with Q s epoch =
     (case Q s of
        Inl e \<Rightarrow> (Inl e, s)
      | Inr q \<Rightarrow>
          (let s' = s\<lparr>printed := printed s @ [TrainingProgress q]\<rparr> in
           if q > target s'
           then (Inr (), s'\<lparr>printed := printed s' @ [StoppedAtEpoch (epoch + 1)],
                            stop_training := True\<rparr>)
           else (Inr (), s')))"

definition on_epoch_end_with ::
  "(EarlyStop \<Rightarrow> error + real) \<Rightarrow> EarlyStop \<Rightarrow> int \<Rightarrow> logs \<Rightarrow> (error + unit) \<times> EarlyStop" where
  "on_epoch_end_with Q s epoch lg =
     (let s' = record_epoch s epoch lg in
      case due s' epoch of
        Inl e \<Rightarrow> (Inl e, s')
      | Inr False \<Rightarrow> (Inr (), s')
      | Inr True \<Rightarrow> decide_with Q s' epoch)"

fun run_epochs_with ::
  "(EarlyStop \<Rightarrow> error + real) \<Rightarrow> EarlyStop \<Rightarrow> nat \<Rightarrow> logs list \<Rightarrow> (error + unit) \<times> EarlyStop" where
  "run_epochs_with Q s k [] = (Inr (), s)"
| "run_epochs_with Q s k (lg # rest) =
     (case on_epoch_end_with Q s (int k) lg of
        (Inl e, s') \<Rightarrow> (Inl e, s')
      | (Inr u, s') \<Rightarrow> run_epochs_with Q s' (Suc k) rest)"

definition exceeds_target_with ::
  "(EarlyStop \<Rightarrow> error + real) \<Rightarrow> EarlyStop \<Rightarrow> int \<Rightarrow> logs \<Rightarrow> bool" where
  "exceeds_target_with Q s epoch lg =
     (due (record_epoch s epoch lg) epoch = Inr True \<and>
      (case Q (record_epoch s epoch lg) of
         Inl e \<Rightarrow> False
       | Inr q \<Rightarrow> q > target s))"

text \<open>The logs of an epoch with the given training and validation loss, used in examples.\<close>

definition logs_of :: "real \<Rightarrow> real \<Rightarrow> logs" where
  "logs_of t v = \<lparr>loss = t, val_acc = 1 / 2, val_loss = v\<rparr>"


section \<open>The network\<close>

text \<open>
  The layers \<open>create_model\<close> adds.  Every convolution has 3 by 3 kernels, relu activation and
  same padding, and every pooling layer same padding, so a convolution carries its number of
  filters and, for the first layer, the input shape; a dense layer carries its units and its
  activation.
\<close>

datatype layer =
  Conv2D int "int list option"
  | BatchNormalization
  | MaxPool2D
  | AlwaysDropout real
  | Flatten
  | Dense int string

text \<open>
  A symbolic tensor of the graph: one given to a layer, or the result of the backend's
  dropout operation on a tensor with a rate, a noise shape and a seed.
\<close>

datatype 'a tensor =
  Given 'a
  | BackendDropout "'a tensor" real "int list option" "int option"

text \<open>
  \<open>AlwaysDropout.call(self, inputs, training=None)\<close>: \<open>rate\<close> and \<open>seed\<close> are the
  layer's attributes and \<open>get_noise_shape\<close> is the inherited \<open>_get_noise_shape\<close>.
\<close>

definition AlwaysDropout_call ::
  "('a tensor \<Rightarrow> int list option) \<Rightarrow> real \<Rightarrow> int option \<Rightarrow> 'a tensor \<Rightarrow> bool option \<Rightarrow> 'a tensor" where
  "AlwaysDropout_call get_noise_shape rate seed inputs training =
     (if 0 < rate \<and> rate < 1
      then BackendDropout inputs rate (get_noise_shape inputs) seed
      else inputs)"

datatype optimiser = Adadelta real real real real

text \<open>
  A compiled sequential model: its layers in order, the arguments of \<open>compile\<close>, and its
  weights, whose type is left open.
\<close>

record 'w network =
  layers :: "layer list"
  optimizer :: optimiser
  compiled_loss :: string
  metrics :: "string list"
  weights :: 'w

text \<open>
  \<open>Model.create_model\<close>, from \<open>self.input_shape\<close>, \<open>self.num_classes\<close> and
  \<open>self.config\<close>.  \<open>initial\<close> stands for the framework's weight initialisers: the
  weights of a newly built model are drawn for its layers and from nothing else.
\<close>

definition create_model :: "(layer list \<Rightarrow> 'w) \<Rightarrow> int list \<Rightarrow> int \<Rightarrow> config \<Rightarrow> 'w network" where
  "create_model initial shape classes cfg =
     (let block1 =
            [Conv2D 64 (Some shape), BatchNormalization, Conv2D 64 None, BatchNormalization,
             MaxPool2D]
            @ (if bayesian cfg then [AlwaysDropout 0.25] else []);
          block2 =
            [Conv2D 128 None, BatchNormalization, Conv2D 128 None, BatchNormalization,
             MaxPool2D]
            @ (if bayesian cfg then [AlwaysDropout 0.25] else []);
          block3 =
            [Conv2D 256 None, BatchNormalization, Conv2D 256 None, BatchNormalization,
             Conv2D 256 None, BatchNormalization, MaxPool2D]
            @ (if bayesian cfg then [AlwaysDropout 0.25] else []);
          block4 =
            [Flatten, Dense 1024 ''relu'', BatchNormalization]
            @ (if bayesian cfg then [AlwaysDropout 0.25] else [])
            @ [Dense 1024 ''relu'', BatchNormalization, Dense classes ''softmax''];
          built = block1 @ block2 @ block3 @ block4
      in \<lparr>layers = built,
          optimizer = Adadelta (learning_rate cfg) (rho cfg) (epsilon cfg) (decay cfg),
          compiled_loss = ''categorical_crossentropy'',
          metrics = [''accuracy''],
          weights = initial built\<rparr>)"


section \<open>The Model class\<close>

text \<open>
  What lies outside the program: the layers held by the default graph, the lines printed
  and the lines appended to files by \<open>log\<close>, the paths \<open>load_weights\<close> was called with,
  and the objects pickled to files.
\<close>

record 'h world =
  graph :: "layer list"
  stdout :: "string list"
  appended :: "(string \<times> string) list"
  load_calls :: "string list"
  pickled :: "string \<rightharpoonup> 'h"

text \<open>
  The framework and the file system as \<open>train\<close> meets them: the weight initialisers,
  \<open>os.path.isdir\<close>, \<open>load_weights\<close> (\<open>None\<close> when it raises), \<open>fit_generator\<close> run
  from given weights for a number of epochs with a callback (\<open>None\<close> when it raises, else
  the trained weights and the history dictionary), and whether \<open>open(path, 'wb')\<close>
  succeeds.
\<close>

record ('w, 'h) framework =
  initial_weights :: "layer list \<Rightarrow> 'w"
  isdir :: "string \<Rightarrow> bool"
  load_weights :: "string \<Rightarrow> 'w option"
  fit_generator :: "'w \<Rightarrow> int \<Rightarrow> EarlyStop \<Rightarrow> ('w \<times> 'h) option"
  open_wb :: "string \<Rightarrow> bool"

datatype train_error = LoadWeightsError | FitError | OpenError

record 'w Model =
  input_shape :: "int list"
  num_classes :: int
  verbose :: bool
  config :: config
  model :: "'w network"

text \<open>\<open>Model.log\<close>: print when verbose, append to the log file when one is named.\<close>

definition Model_log :: "config \<Rightarrow> string \<Rightarrow> 'h world \<Rightarrow> 'h world" where
  "Model_log cfg message w =
     (let w1 = (if config.verbose cfg then w\<lparr>stdout := stdout w @ [message]\<rparr> else w)
      in if log_file cfg \<noteq> []
         then w1\<lparr>appended := appended w1 @ [(log_file cfg, message)]\<rparr>
         else w1)"

text \<open>
  \<open>Model.__init__\<close>: the default graph is reset, the attributes are set from the
  configuration, the network is built into the graph, and two messages are logged (the
  second is the value \<open>summary()\<close> returns, which prints as \<open>None\<close>).
\<close>

definition Model_init :: "('w, 'h) framework \<Rightarrow> config \<Rightarrow> 'h world \<Rightarrow> 'w Model \<times> 'h world" where
  "Model_init fw cfg w =
     (let w1 = w\<lparr>graph := []\<rparr>;
          shape = [input_height cfg, input_width cfg, input_channels cfg];
          net = create_model (initial_weights fw) shape (config.num_classes cfg) cfg;
          w2 = w1\<lparr>graph := graph w1 @ layers net\<rparr>;
          self = \<lparr>input_shape = shape, num_classes = config.num_classes cfg,
                  verbose = config.verbose cfg, config = cfg, model = net\<rparr>;
          w3 = Model_log cfg (''Model has been created'' @ [CHR 0x0A]) w2;
          w4 = Model_log cfg ''None'' w3
      in (self, w4))"

text \<open>\<open>Model.__copy__\<close>.\<close>

definition Model_copy :: "('w, 'h) framework \<Rightarrow> 'w Model \<Rightarrow> 'h world \<Rightarrow> 'w Model \<times> 'h world" where
  "Model_copy fw self w = Model_init fw (config self) (w\<lparr>graph := []\<rparr>)"

text \<open>Line 150, the condition under which existing weights are loaded.\<close>

definition restore_due :: "('w, 'h) framework \<Rightarrow> config \<Rightarrow> bool" where
  "restore_due fw cfg =
     (model_tuning cfg \<and> mode cfg \<noteq> ''supervised'' \<and> isdir fw (model_path cfg))"

text \<open>Lines 150 to 152.\<close>

definition restore_weights ::
  "('w, 'h) framework \<Rightarrow> 'w Model \<Rightarrow> 'h world \<Rightarrow> (train_error + unit) \<times> 'w Model \<times> 'h world" where
  "restore_weights fw self w =
     (if restore_due fw (config self)
      then (let path = model_path (config self) @ ''/weights'';
                w1 = w\<lparr>load_calls := load_calls w @ [path]\<rparr>
            in case load_weights fw path of
                 None \<Rightarrow> (Inl LoadWeightsError, self, w1)
               | Some ws \<Rightarrow>
                   (Inr (), self\<lparr>model := (model self)\<lparr>weights := ws\<rparr>\<rparr>,
                    Model_log (config self) ''Model Restored'' w1))
      else (Inr (), self, w))"

text \<open>Line 169, the path the history is written to.\<close>

definition history_path :: "string \<Rightarrow> string" where
  "history_path experiment = ''/History/'' @ experiment"

text \<open>The callback \<open>train\<close> hands to \<open>fit_generator\<close> (lines 164 to 167).\<close>

definition train_callback :: "config \<Rightarrow> EarlyStop" where
  "train_callback cfg =
     EarlyStop_init (config.min_epochs cfg) (batch_epochs cfg) (training_threshold cfg)"

text \<open>
  \<open>Model.train\<close>: the outcome, the model object and the world afterwards.  The image
  loaders are left to the framework.
\<close>

definition train ::
  "('w, 'h) framework \<Rightarrow> 'w Model \<Rightarrow> string \<Rightarrow> 'h world \<Rightarrow> (train_error + unit) \<times> 'w Model \<times> 'h world" where
  "train fw self experiment w =
     (case restore_weights fw self w of
        (Inl e, self1, w1) \<Rightarrow> (Inl e, self1, w1)
      | (Inr u, self1, w1) \<Rightarrow>
          (case fit_generator fw (weights (model self1)) (max_epochs (config self1))
                  (train_callback (config self1)) of
             None \<Rightarrow> (Inl FitError, self1, w1)
           | Some (ws, history) \<Rightarrow>
               (let self2 = self1\<lparr>model := (model self1)\<lparr>weights := ws\<rparr>\<rparr>
                in if open_wb fw (history_path experiment)
                   then (Inr (), self2,
                         w1\<lparr>pickled := (pickled w1)(history_path experiment \<mapsto> history)\<rparr>)
                   else (Inl OpenError, self2, w1))))"

text \<open>\<open>os.path.isabs\<close> on a POSIX system: the path starts with a slash.\<close>

definition isabs :: "string \<Rightarrow> bool" where
  "isabs p = (case p of [] \<Rightarrow> False | c # cs \<Rightarrow> c = CHR ''/'')"


section \<open>Examples\<close>

text \<open>
  A configuration with the given \<open>bayesian\<close> flag, \<open>model_tuning\<close> flag and mode; a
  framework whose fit adds one to the weights and returns the number of epochs as its
  history, with every path a directory or none; an empty world; a model newly built
  from the configuration; and that model and the world after one call of \<open>train\<close>.
\<close>

definition example_config :: "bool \<Rightarrow> bool \<Rightarrow> string \<Rightarrow> config" where
  "example_config bayes tuning md =
     \<lparr>input_height = 27, input_width = 27, input_channels = 3, config.num_classes = 4,
      config.verbose = True, log_file = ''log.txt'', bayesian = bayes, learning_rate = 1,
      rho = 0.95, epsilon = 0.00000001, decay = 0, model_tuning = tuning, mode = md,
      model_path = ''model'', max_epochs = 100, config.min_epochs = 10, batch_epochs = 5,
      training_threshold = 1\<rparr>"

definition example_framework :: "bool \<Rightarrow> (nat, int) framework" where
  "example_framework dir =
     \<lparr>initial_weights = (\<lambda>ls. 0), isdir = (\<lambda>p. dir), load_weights = (\<lambda>p. Some 7),
      fit_generator = (\<lambda>ws n cb. Some (Suc ws, n)), open_wb = (\<lambda>p. True)\<rparr>"

definition empty_world :: "int world" where
  "empty_world = \<lparr>graph = [], stdout = [], appended = [], load_calls = [], pickled = Map.empty\<rparr>"

definition example_model :: "nat Model" where
  "example_model =
     fst (Model_init (example_framework False) (example_config False True ''active'') empty_world)"

definition example_trained :: "nat Model \<times> int world" where
  "example_trained = snd (train (example_framework False) example_model ''0'' empty_world)"


section \<open>Facts about the built-ins\<close>

lemma slice_bound_simps:
  "slice_bound n 0 = 0" "slice_bound n (- 1) = n - 1"
  by (auto simp: slice_bound_def)

lemma py_slice_butlast: "py_slice xs 0 (- 1) = butlast xs"
  by (simp add: py_slice_def slice_bound_simps butlast_conv_take)

lemma fold_keep_smaller:
  "fold (\<lambda>y m. if y < m then y else m) xs (x::real) = Min (set (x # xs))"
proof (induction xs arbitrary: x)
  case Nil
  show ?case by simp
next
  case (Cons a xs)
  have "(if a < x then a else x) = min a x" by (simp add: min_def)
  moreover have "Min (set (min a x # xs)) = Min (set (x # a # xs))"
    by (cases "xs = []") (simp_all add: min.commute min.assoc min.left_commute)
  ultimately show ?case using Cons.IH [of "min a x"] by simp
qed

lemma py_min_nonempty: "xs \<noteq> [] \<Longrightarrow> py_min xs = Inr (Min (set xs))"
  by (cases xs) (simp_all add: fold_keep_smaller del: set_simps)

lemma py_last_snoc: "py_last (xs @ [x]) = Inr x"
  by (simp add: py_last_def)


section \<open>Facts about one call of the callback\<close>

lemma record_epoch_fields [simp]:
  "val_losses (record_epoch s epoch lg) = val_losses s @ [val_loss lg]"
  "train_losses (record_epoch s epoch lg) = train_losses s @ [loss lg]"
  "min_epochs (record_epoch s epoch lg) = min_epochs s"
  "batch (record_epoch s epoch lg) = batch s"
  "target (record_epoch s epoch lg) = target s"
  "stop_training (record_epoch s epoch lg) = stop_training s"
  "printed (record_epoch s epoch lg) = printed s"
  by (simp_all add: record_epoch_def)

lemma decide_losses [simp]:
  "val_losses (snd (decide s epoch)) = val_losses s"
  "train_losses (snd (decide s epoch)) = train_losses s"
  by (simp_all add: decide_def Let_def split: sum.splits)

lemma on_epoch_end_losses:
  "val_losses (snd (on_epoch_end s epoch lg)) = val_losses s @ [val_loss lg]"
  "train_losses (snd (on_epoch_end s epoch lg)) = train_losses s @ [loss lg]"
  by (simp_all add: on_epoch_end_def Let_def split: sum.splits bool.splits)

lemma g_loss_record_epoch:
  assumes "val_losses s \<noteq> []" and "Min (set (val_losses s)) \<noteq> 0"
  shows "g_loss (record_epoch s epoch lg) =
           Inr (100 * (val_loss lg / Min (set (val_losses s)) - 1))"
  using assms
  by (simp add: g_loss_def py_last_snoc py_slice_butlast py_min_nonempty py_div_def)

lemma decide_stop:
  "stop_training (snd (decide s epoch)) \<longleftrightarrow>
     stop_training s \<or> (\<exists>q. progress_quotient s = Inr q \<and> target s < q)"
  by (auto simp: decide_def Let_def split: sum.splits)

lemma on_epoch_end_stop:
  "stop_training (snd (on_epoch_end s epoch lg)) \<longleftrightarrow>
     stop_training s \<or> exceeds_target s epoch lg"
  by (auto simp: on_epoch_end_def exceeds_target_def decide_stop Let_def
      split: sum.splits bool.splits)

lemma due_iff:
  "b \<noteq> 0 \<Longrightarrow> batch s = b \<Longrightarrow>
     due s epoch = Inr ((epoch + 1) mod b = 0 \<and> min_epochs s \<le> epoch + 1)"
  by (simp add: due_def py_mod_def)

lemma decide_observed:
  "fst (decide s epoch) \<noteq> Inr () \<or> printed (snd (decide s epoch)) \<noteq> printed s"
  by (auto simp: decide_def Let_def split: sum.splits)


section \<open>Facts about a sequence of calls\<close>

lemma run_epochs_completed:
  "run_epochs s k lgs = (Inr (), s') \<Longrightarrow>
     val_losses s' = val_losses s @ map val_loss lgs \<and>
     train_losses s' = train_losses s @ map loss lgs"
proof (induction lgs arbitrary: s k)
  case Nil
  then show ?case by simp
next
  case (Cons lg rest)
  obtain r s1 where step: "on_epoch_end s (int k) lg = (r, s1)"
    by (cases "on_epoch_end s (int k) lg")
  with Cons.prems have rest: "run_epochs s1 (Suc k) rest = (Inr (), s')"
    by (auto split: sum.splits)
  have "val_losses s1 = val_losses s @ [val_loss lg]"
    "train_losses s1 = train_losses s @ [loss lg]"
    using on_epoch_end_losses [of s "int k" lg] step by simp_all
  with Cons.IH [OF rest] show ?case by simp
qed


section \<open>The loss histories\<close>

text \<open>
  Claim C5.  Every call of \<open>on_epoch_end\<close>, whether it returns or raises, leaves both loss
  lists as they were with exactly one element appended: the epoch's validation loss and its
  training loss.  So after a sequence of calls on a new callback that all return, the lists
  hold the losses of the epochs in order, and both have as many elements as there were
  epochs.
\<close>

theorem losses_grow_by_one:
  "val_losses (snd (on_epoch_end s epoch lg)) = val_losses s @ [val_loss lg] \<and>
   train_losses (snd (on_epoch_end s epoch lg)) = train_losses s @ [loss lg] \<and>
   (fst (run_epochs (EarlyStop_init m b t) 0 lgs) = Inr () \<longrightarrow>
      val_losses (snd (run_epochs (EarlyStop_init m b t) 0 lgs)) = map val_loss lgs \<and>
      train_losses (snd (run_epochs (EarlyStop_init m b t) 0 lgs)) = map loss lgs \<and>
      length (val_losses (snd (run_epochs (EarlyStop_init m b t) 0 lgs))) = length lgs \<and>
      length (train_losses (snd (run_epochs (EarlyStop_init m b t) 0 lgs))) = length lgs)"
proof -
  let ?run = "run_epochs (EarlyStop_init m b t) 0 lgs"
  have "val_losses (snd ?run) = map val_loss lgs \<and> train_losses (snd ?run) = map loss lgs"
    if "fst ?run = Inr ()"
  proof -
    from that have "?run = (Inr (), snd ?run)" by (cases ?run) simp
    from run_epochs_completed [OF this] show ?thesis by (simp add: EarlyStop_init_def)
  qed
  then show ?thesis by (simp add: on_epoch_end_losses)
qed

theorem losses_grow_by_one_witness:
  "fst (run_epochs (EarlyStop_init 0 5 1) 0 [logs_of 5 8, logs_of 4 6, logs_of 3 7]) = Inr () \<and>
   val_losses (snd (run_epochs (EarlyStop_init 0 5 1) 0 [logs_of 5 8, logs_of 4 6, logs_of 3 7]))
     = [8, 6, 7] \<and>
   train_losses (snd (run_epochs (EarlyStop_init 0 5 1) 0 [logs_of 5 8, logs_of 4 6, logs_of 3 7]))
     = [5, 4, 3] \<and>
   length (val_losses
     (snd (run_epochs (EarlyStop_init 0 5 1) 0 [logs_of 5 8, logs_of 4 6, logs_of 3 7]))) = 3"
proof -
  have ran: "fst (run_epochs (EarlyStop_init 0 5 1) 0 [logs_of 5 8, logs_of 4 6, logs_of 3 7])
      = Inr ()"
    by code_simp
  with losses_grow_by_one [of _ _ _ 0 5 1 "[logs_of 5 8, logs_of 4 6, logs_of 3 7]"]
  show ?thesis by (simp add: logs_of_def)
qed


section \<open>When the decision is taken\<close>

text \<open>
  Claim C4.  For a batch interval other than 0, a call of \<open>on_epoch_end\<close> takes the stopping
  decision (it prints the training-progress line, or an exception escapes from computing
  the two ratios) if and only if \<open>epoch + 1\<close> is a multiple of the batch interval and at
  least the minimum-epoch floor.  Below the floor the call only records the epoch: it
  returns, prints nothing and leaves \<open>stop_training\<close> alone.
\<close>

theorem decision_gate:
  assumes "batch s \<noteq> 0"
  shows "((fst (on_epoch_end s epoch lg) \<noteq> Inr () \<or>
           printed (snd (on_epoch_end s epoch lg)) \<noteq> printed s)
          \<longleftrightarrow> ((epoch + 1) mod batch s = 0 \<and> min_epochs s \<le> epoch + 1)) \<and>
         (epoch + 1 < min_epochs s \<longrightarrow>
            on_epoch_end s epoch lg = (Inr (), record_epoch s epoch lg))"
proof -
  let ?s = "record_epoch s epoch lg"
  have gate: "due ?s epoch = Inr ((epoch + 1) mod batch s = 0 \<and> min_epochs s \<le> epoch + 1)"
    using assms by (simp add: due_iff)
  show ?thesis
  proof (cases "(epoch + 1) mod batch s = 0 \<and> min_epochs s \<le> epoch + 1")
    case True
    with gate have "on_epoch_end s epoch lg = decide ?s epoch"
      by (simp add: on_epoch_end_def)
    with True decide_observed [of ?s epoch] show ?thesis by auto
  next
    case False
    with gate have "on_epoch_end s epoch lg = (Inr (), ?s)"
      by (simp add: on_epoch_end_def)
    with False show ?thesis by auto
  qed
qed

theorem decision_gate_witness:
  "batch (EarlyStop_init 4 2 1) \<noteq> 0 \<and>
   (0::int) + 1 < min_epochs (EarlyStop_init 4 2 1) \<and>
   on_epoch_end (EarlyStop_init 4 2 1) 0 (logs_of 1 8)
     = (Inr (), record_epoch (EarlyStop_init 4 2 1) 0 (logs_of 1 8)) \<and>
   fst (on_epoch_end (EarlyStop_init 4 2 1) 0 (logs_of 1 8)) = Inr () \<and>
   printed (snd (on_epoch_end (EarlyStop_init 4 2 1) 0 (logs_of 1 8))) = []"
proof -
  have b: "batch (EarlyStop_init 4 2 1) \<noteq> 0" by (simp add: EarlyStop_init_def)
  have m: "(0::int) + 1 < min_epochs (EarlyStop_init 4 2 1)" by (simp add: EarlyStop_init_def)
  from decision_gate [OF b, of 0 "logs_of 1 8"] m
  have "on_epoch_end (EarlyStop_init 4 2 1) 0 (logs_of 1 8)
     = (Inr (), record_epoch (EarlyStop_init 4 2 1) 0 (logs_of 1 8))" by blast
  with b m show ?thesis by (simp add: EarlyStop_init_def)
qed


section \<open>The window of the denominator\<close>

text \<open>The two minus signs cancel: the window of the minimum starts at index \<open>batch + 1\<close>.\<close>

lemma double_minus_window: "denominator_window s = py_slice (train_losses s) (batch s + 1) (- 1)"
  by (simp add: denominator_window_def add.commute)

text \<open>
  Claim C1.  The claim that \<open>--(batch+1)\<close> slices like \<open>-(batch+1)\<close> fails on the code.
  With the default floor 0 and interval 5, at the fifth epoch the window of the minimum
  \<open>train_losses[6:-1]\<close> is empty and \<open>min\<close> raises ValueError, so the call raises, while
  \<open>train_losses[-6:-1]\<close> holds four losses with minimum 2.  With floor 8 and interval 2, at
  the eighth epoch both windows are non-empty and their minima differ: 1 against 5/2.
\<close>

theorem double_minus_is_not_negation:
  "py_min (denominator_window
      (snd (run_epochs (EarlyStop_init 0 5 1) 0
        [logs_of 5 8, logs_of 4 7, logs_of 3 6, logs_of 2 5, logs_of 1 4]))) = Inl ValueError \<and>
   py_min (recent_window
      (snd (run_epochs (EarlyStop_init 0 5 1) 0
        [logs_of 5 8, logs_of 4 7, logs_of 3 6, logs_of 2 5, logs_of 1 4]))) = Inr 2 \<and>
   fst (run_epochs (EarlyStop_init 0 5 1) 0
        [logs_of 5 8, logs_of 4 7, logs_of 3 6, logs_of 2 5, logs_of 1 4]) = Inl ValueError \<and>
   py_min (denominator_window
      (snd (run_epochs (EarlyStop_init 8 2 1) 0
        [logs_of 8 8, logs_of 7 7, logs_of 6 6, logs_of 1 5, logs_of 4 4, logs_of 3 3,
         logs_of (5 / 2) 2, logs_of 2 1]))) = Inr 1 \<and>
   py_min (recent_window
      (snd (run_epochs (EarlyStop_init 8 2 1) 0
        [logs_of 8 8, logs_of 7 7, logs_of 6 6, logs_of 1 5, logs_of 4 4, logs_of 3 3,
         logs_of (5 / 2) 2, logs_of 2 1]))) = Inr (5 / 2)"
  by code_simp


section \<open>Exceptions of the decision\<close>

text \<open>
  Claim C9.  With batch interval 2 and floor 0 the first decision is due at the second
  epoch.  There \<open>g_loss\<close> is computed (it is -50), the window of the sum holds one loss, but
  the window of the minimum \<open>train_losses[3:-1]\<close> is empty and the call raises ValueError:
  a batch interval of at least 2 does not keep the decision free of exceptions.  With
  interval 1 and floor 0 the first call raises ValueError from \<open>min(val_losses[:-1])\<close>.
\<close>

theorem first_decision_raises:
  "2 \<le> batch (EarlyStop_init 0 2 1) \<and>
   fst (run_epochs (EarlyStop_init 0 2 1) 0 [logs_of 2 8, logs_of 1 4]) = Inl ValueError \<and>
   g_loss (snd (run_epochs (EarlyStop_init 0 2 1) 0 [logs_of 2 8, logs_of 1 4])) = Inr (- 50) \<and>
   denominator_window (snd (run_epochs (EarlyStop_init 0 2 1) 0 [logs_of 2 8, logs_of 1 4])) = [] \<and>
   recent_window (snd (run_epochs (EarlyStop_init 0 2 1) 0 [logs_of 2 8, logs_of 1 4])) = [2] \<and>
   fst (run_epochs (EarlyStop_init 0 1 1) 0 [logs_of 1 8]) = Inl ValueError \<and>
   g_loss (snd (run_epochs (EarlyStop_init 0 1 1) 0 [logs_of 1 8])) = Inl ValueError"
  by code_simp


section \<open>Decreasing validation losses\<close>

lemma last_below_earlier:
  assumes "sorted (rev (xs @ [v :: real]))" and "xs \<noteq> []"
  shows "v \<le> Min (set xs)"
  using assms by (simp add: sorted_wrt_append)

lemma g_loss_not_positive:
  assumes nonempty: "val_losses s \<noteq> []"
    and positive: "\<forall>v\<in>set (val_losses s @ [val_loss lg]). 0 < v"
    and decreasing: "sorted (rev (val_losses s @ [val_loss lg]))"
  shows "\<exists>g. g_loss (record_epoch s epoch lg) = Inr g \<and> g \<le> 0"
proof -
  let ?m = "Min (set (val_losses s))"
  have "?m \<in> set (val_losses s)" using nonempty by (intro Min_in) simp_all
  with positive have m: "0 < ?m" by simp
  have "val_loss lg \<le> ?m" using last_below_earlier [OF decreasing nonempty] .
  with m have "val_loss lg / ?m \<le> 1" by simp
  hence "100 * (val_loss lg / ?m - 1) \<le> 0" by simp
  moreover have "g_loss (record_epoch s epoch lg) = Inr (100 * (val_loss lg / ?m - 1))"
    using g_loss_record_epoch [OF nonempty] m by simp
  ultimately show ?thesis by simp
qed

lemma g_loss_positive:
  assumes nonempty: "val_losses s \<noteq> []"
    and positive: "\<forall>v\<in>set (val_losses s). 0 < v"
    and rise: "Min (set (val_losses s)) < val_loss lg"
  shows "\<exists>g. g_loss (record_epoch s epoch lg) = Inr g \<and> 0 < g"
proof -
  let ?m = "Min (set (val_losses s))"
  have "?m \<in> set (val_losses s)" using nonempty by (intro Min_in) simp_all
  with positive have m: "0 < ?m" by simp
  with rise have "1 < val_loss lg / ?m" by simp
  hence "0 < 100 * (val_loss lg / ?m - 1)" by simp
  moreover have "g_loss (record_epoch s epoch lg) = Inr (100 * (val_loss lg / ?m - 1))"
    using g_loss_record_epoch [OF nonempty] m by simp
  ultimately show ?thesis by simp
qed

lemma no_excess_without_negative_progress:
  assumes g: "g_loss s = Inr g" and "g \<le> 0" and "0 \<le> target s"
    and t: "\<forall>t. t_progress s = Inr t \<longrightarrow> 0 \<le> t"
  shows "\<not> (\<exists>q. progress_quotient s = Inr q \<and> target s < q)"
proof
  assume "\<exists>q. progress_quotient s = Inr q \<and> target s < q"
  then obtain q where q: "progress_quotient s = Inr q" and above: "target s < q" by blast
  from q g obtain t where tp: "t_progress s = Inr t" and d: "py_div g t = Inr q"
    by (auto simp: progress_quotient_def split: sum.splits)
  from d have "t \<noteq> 0" and "q = g / t" by (auto simp: py_div_def split: if_splits)
  moreover from t tp have "0 \<le> t" by simp
  ultimately have "q \<le> 0" using \<open>g \<le> 0\<close> by (simp add: divide_nonpos_pos)
  with above \<open>0 \<le> target s\<close> show False by simp
qed

text \<open>
  Claim C2, as the code has it.  At an epoch boundary where the validation losses recorded
  so far, the new one included, are positive and decreasing and at least one earlier loss
  exists, \<open>g_loss\<close> is computed and is not positive.  If moreover the target is not
  negative and \<open>t_progress\<close> does not come out negative, the call leaves \<open>stop_training\<close>
  as it was.
\<close>

theorem decreasing_validation_loss:
  assumes nonempty: "val_losses s \<noteq> []"
    and positive: "\<forall>v\<in>set (val_losses s @ [val_loss lg]). 0 < v"
    and decreasing: "sorted (rev (val_losses s @ [val_loss lg]))"
  shows "(\<exists>g. g_loss (record_epoch s epoch lg) = Inr g \<and> g \<le> 0) \<and>
         (0 \<le> target s \<and> (\<forall>t. t_progress (record_epoch s epoch lg) = Inr t \<longrightarrow> 0 \<le> t) \<longrightarrow>
            stop_training (snd (on_epoch_end s epoch lg)) = stop_training s)"
proof -
  let ?s = "record_epoch s epoch lg"
  from g_loss_not_positive [OF assms] obtain g where g: "g_loss ?s = Inr g" "g \<le> 0"
    by blast
  have "stop_training (snd (on_epoch_end s epoch lg)) = stop_training s"
    if "0 \<le> target s" and "\<forall>t. t_progress ?s = Inr t \<longrightarrow> 0 \<le> t"
  proof -
    have "\<not> (\<exists>q. progress_quotient ?s = Inr q \<and> target ?s < q)"
      using no_excess_without_negative_progress [OF g] that by simp
    hence "\<not> exceeds_target s epoch lg"
      by (auto simp: exceeds_target_def split: sum.splits)
    thus ?thesis by (simp add: on_epoch_end_stop)
  qed
  with g show ?thesis by blast
qed

theorem decreasing_validation_loss_witness:
  "val_losses ((EarlyStop_init 6 2 1)\<lparr>val_losses := [8, 4, 3, 2, 1], train_losses := [5, 4, 3, 2, 1]\<rparr>) \<noteq> [] \<and>
   sorted (rev (val_losses ((EarlyStop_init 6 2 1)\<lparr>val_losses := [8, 4, 3, 2, 1], train_losses := [5, 4, 3, 2, 1]\<rparr>)
                 @ [val_loss (logs_of 1 (1 / 2))])) \<and>
   0 \<le> target ((EarlyStop_init 6 2 1)\<lparr>val_losses := [8, 4, 3, 2, 1], train_losses := [5, 4, 3, 2, 1]\<rparr>) \<and>
   t_progress (record_epoch ((EarlyStop_init 6 2 1)\<lparr>val_losses := [8, 4, 3, 2, 1], train_losses := [5, 4, 3, 2, 1]\<rparr>)
                 5 (logs_of 1 (1 / 2))) = Inr 500 \<and>
   (\<exists>g. g_loss (record_epoch ((EarlyStop_init 6 2 1)\<lparr>val_losses := [8, 4, 3, 2, 1], train_losses := [5, 4, 3, 2, 1]\<rparr>)
                 5 (logs_of 1 (1 / 2))) = Inr g \<and> g \<le> 0) \<and>
   stop_training (snd (on_epoch_end ((EarlyStop_init 6 2 1)\<lparr>val_losses := [8, 4, 3, 2, 1], train_losses := [5, 4, 3, 2, 1]\<rparr>)
                 5 (logs_of 1 (1 / 2))))
     = stop_training ((EarlyStop_init 6 2 1)\<lparr>val_losses := [8, 4, 3, 2, 1], train_losses := [5, 4, 3, 2, 1]\<rparr>)"
proof -
  let ?s = "(EarlyStop_init 6 2 1)\<lparr>val_losses := [8, 4, 3, 2, 1], train_losses := [5, 4, 3, 2, 1]\<rparr>"
  let ?lg = "logs_of 1 (1 / 2)"
  have h1: "val_losses ?s \<noteq> []" by simp
  have h2: "\<forall>v\<in>set (val_losses ?s @ [val_loss ?lg]). 0 < v" by (simp add: logs_of_def)
  have h3: "sorted (rev (val_losses ?s @ [val_loss ?lg]))" by (simp add: logs_of_def)
  have h4: "0 \<le> target ?s" by (simp add: EarlyStop_init_def)
  have h5: "t_progress (record_epoch ?s 5 ?lg) = Inr 500" by code_simp
  hence h6: "\<forall>t. t_progress (record_epoch ?s 5 ?lg) = Inr t \<longrightarrow> 0 \<le> t" by simp
  from decreasing_validation_loss [OF h1 h2 h3, of 5] h4 h6
  have "(\<exists>g. g_loss (record_epoch ?s 5 ?lg) = Inr g \<and> g \<le> 0) \<and>
        stop_training (snd (on_epoch_end ?s 5 ?lg)) = stop_training ?s"
    by blast
  with h1 h3 h4 h5 show ?thesis by blast
qed

text \<open>
  The claim as written fails: with batch interval 1 the sum and the minimum are over the
  same single loss, so \<open>t_progress\<close> is -500; a decreasing validation loss gives a negative
  \<open>g_loss\<close>, the quotient is positive, and it is above a small target.  Here the fourth
  epoch halves the validation loss, the quotient is 1/10, the target 1/20, and
  \<open>stop_training\<close> is set.
\<close>

theorem decreasing_losses_can_stop:
  "sorted (rev (map val_loss [logs_of 4 8, logs_of 3 4, logs_of 2 2, logs_of 1 1])) \<and>
   fst (run_epochs (EarlyStop_init 4 1 (1 / 20)) 0
          [logs_of 4 8, logs_of 3 4, logs_of 2 2, logs_of 1 1]) = Inr () \<and>
   g_loss (snd (run_epochs (EarlyStop_init 4 1 (1 / 20)) 0
          [logs_of 4 8, logs_of 3 4, logs_of 2 2, logs_of 1 1])) = Inr (- 50) \<and>
   t_progress (snd (run_epochs (EarlyStop_init 4 1 (1 / 20)) 0
          [logs_of 4 8, logs_of 3 4, logs_of 2 2, logs_of 1 1])) = Inr (- 500) \<and>
   stop_training (snd (run_epochs (EarlyStop_init 4 1 (1 / 20)) 0
          [logs_of 4 8, logs_of 3 4, logs_of 2 2, logs_of 1 1]))"
  by code_simp


section \<open>Stopping at the first excess\<close>

text \<open>
  The exact definitions are the rounded ones with no rounding, and the callback for any
  evaluation of the quotient is the callback above when the quotient is the exact one.
\<close>

lemma rounded_exact:
  "g_loss_rounded (\<lambda>x. x) = g_loss"
  "t_progress_rounded (\<lambda>x. x) = t_progress"
  "progress_quotient_rounded (\<lambda>x. x) = progress_quotient"
proof -
  show g: "g_loss_rounded (\<lambda>x. x) = g_loss"
    by (rule ext) (simp add: g_loss_rounded_def g_loss_def py_div_def split: sum.splits)
  show t: "t_progress_rounded (\<lambda>x. x) = t_progress"
    by (rule ext)
      (simp add: t_progress_rounded_def t_progress_def py_div_def py_sum_def split: sum.splits)
  show "progress_quotient_rounded (\<lambda>x. x) = progress_quotient"
    by (rule ext)
      (simp add: progress_quotient_rounded_def progress_quotient_def g t py_div_def
        split: sum.splits)
qed

lemma with_exact_quotient:
  "decide_with progress_quotient = decide"
  "on_epoch_end_with progress_quotient = on_epoch_end"
  "exceeds_target_with progress_quotient = exceeds_target"
proof -
  show d: "decide_with progress_quotient = decide"
    by (intro ext) (simp add: decide_with_def decide_def)
  show "on_epoch_end_with progress_quotient = on_epoch_end"
    by (intro ext)
      (simp add: on_epoch_end_with_def on_epoch_end_def d Let_def split: sum.splits bool.splits)
  show "exceeds_target_with progress_quotient = exceeds_target"
    by (intro ext) (simp add: exceeds_target_with_def exceeds_target_def)
qed

lemma run_epochs_with_exact_quotient:
  "run_epochs_with progress_quotient s k lgs = run_epochs s k lgs"
  by (induction lgs arbitrary: s k) (simp_all add: with_exact_quotient split: prod.splits sum.splits)

text \<open>
  Rounding can decide a comparison with the target.  With floor 6, interval 2 and target 1,
  training losses 9, 9, 9, 5, 7, 6 and validation losses 9, 9, 9, 9, 1, 3 give at the sixth
  epoch \<open>g_loss = 200\<close> and \<open>t_progress = 200\<close>: the exact quotient is 1, which is not above
  the target, while double precision gives \<open>t_progress\<close> a little below 200 and a quotient
  a little above 1.  What follows is therefore proved for every evaluation of the quotient.
\<close>

lemma exact_quotient_on_the_target:
  "progress_quotient
     (snd (run_epochs (EarlyStop_init 6 2 1) 0
        [logs_of 9 9, logs_of 9 9, logs_of 9 9, logs_of 5 9, logs_of 7 1, logs_of 6 3])) = Inr 1 \<and>
   \<not> stop_training
     (snd (run_epochs (EarlyStop_init 6 2 1) 0
        [logs_of 9 9, logs_of 9 9, logs_of 9 9, logs_of 5 9, logs_of 7 1, logs_of 6 3]))"
  by code_simp

lemma decide_with_stop:
  "stop_training (snd (decide_with Q s epoch)) \<longleftrightarrow>
     stop_training s \<or> (\<exists>q. Q s = Inr q \<and> target s < q)"
  by (auto simp: decide_with_def Let_def split: sum.splits)

lemma on_epoch_end_with_stop:
  "stop_training (snd (on_epoch_end_with Q s epoch lg)) \<longleftrightarrow>
     stop_training s \<or> exceeds_target_with Q s epoch lg"
  by (auto simp: on_epoch_end_with_def exceeds_target_with_def decide_with_stop Let_def
      split: sum.splits bool.splits)

lemma run_epochs_with_snoc:
  "run_epochs_with Q s n (xs @ [x]) =
     (case run_epochs_with Q s n xs of
        (Inl e, s') \<Rightarrow> (Inl e, s')
      | (Inr u, s') \<Rightarrow> on_epoch_end_with Q s' (int (n + length xs)) x)"
proof (induction xs arbitrary: s n)
  case Nil
  show ?case by (simp split: prod.splits sum.splits)
next
  case (Cons a xs)
  show ?case
    by (simp add: Cons.IH split: prod.splits sum.splits)
qed

lemma run_epochs_with_take_Suc:
  assumes "k < length lgs"
  shows "run_epochs_with Q s n (take (Suc k) lgs) =
     (case run_epochs_with Q s n (take k lgs) of
        (Inl e, s') \<Rightarrow> (Inl e, s')
      | (Inr u, s') \<Rightarrow> on_epoch_end_with Q s' (int (n + k)) (lgs ! k))"
proof -
  have len: "length (take k lgs) = k" using assms by simp
  have "take (Suc k) lgs = take k lgs @ [lgs ! k]"
    using assms by (simp add: take_Suc_conv_app_nth)
  then show ?thesis
    using run_epochs_with_snoc [of Q s n "take k lgs" "lgs ! k"] unfolding len by simp
qed

lemma flag_stays_down:
  assumes "\<not> stop_training s0"
    and "\<forall>j<k. \<not> exceeds_target_with Q (snd (run_epochs_with Q s0 n (take j lgs)))
            (int (n + j)) (lgs ! j)"
    and "k \<le> length lgs"
  shows "\<not> stop_training (snd (run_epochs_with Q s0 n (take k lgs)))"
  using assms(2,3)
proof (induction k)
  case 0
  show ?case using assms(1) by simp
next
  case (Suc k)
  let ?before = "run_epochs_with Q s0 n (take k lgs)"
  have k: "k < length lgs" using Suc.prems by simp
  have down: "\<not> stop_training (snd ?before)" using Suc by simp
  have quiet: "\<not> exceeds_target_with Q (snd ?before) (int (n + k)) (lgs ! k)"
    using Suc.prems by simp
  obtain r s1 where before: "?before = (r, s1)" by (cases ?before)
  show ?case
  proof (cases r)
    case (Inl e)
    with before down show ?thesis by (simp add: run_epochs_with_take_Suc [OF k])
  next
    case (Inr u)
    with before have "run_epochs_with Q s0 n (take (Suc k) lgs) =
        on_epoch_end_with Q s1 (int (n + k)) (lgs ! k)"
      by (simp add: run_epochs_with_take_Suc [OF k])
    with before down quiet show ?thesis by (simp add: on_epoch_end_with_stop)
  qed
qed

text \<open>
  Claim C3.  Let the quotient \<open>g_loss / t_progress\<close> be evaluated in any way, exactly or
  with rounding.  Take the calls for epochs 0, 1, ... on a callback whose network is not
  yet told to stop, and let epoch \<open>k\<close> be the first at which the decision is due and the
  quotient as evaluated is above the target, the earlier calls having returned.  Then
  \<open>stop_training\<close> is still unset before every epoch up to \<open>k\<close>, and the call for epoch
  \<open>k\<close> returns, sets it and prints the stop line for epoch \<open>k + 1\<close> last.  Moreover, at
  every call, on any callback: when the validation losses recorded before are positive and
  the new one is above the smallest of them, \<open>g_loss\<close>, computed exactly, is positive.
\<close>

theorem stop_at_first_excess:
  assumes start: "\<not> stop_training s0"
    and k: "k < length lgs"
    and reached: "fst (run_epochs_with Q s0 0 (take k lgs)) = Inr ()"
    and first: "\<forall>j<k. \<not> exceeds_target_with Q (snd (run_epochs_with Q s0 0 (take j lgs)))
                  (int j) (lgs ! j)"
    and excess: "exceeds_target_with Q (snd (run_epochs_with Q s0 0 (take k lgs)))
                  (int k) (lgs ! k)"
  shows "(\<forall>j\<le>k. \<not> stop_training (snd (run_epochs_with Q s0 0 (take j lgs)))) \<and>
         fst (run_epochs_with Q s0 0 (take (Suc k) lgs)) = Inr () \<and>
         stop_training (snd (run_epochs_with Q s0 0 (take (Suc k) lgs))) \<and>
         last (printed (snd (run_epochs_with Q s0 0 (take (Suc k) lgs))))
           = StoppedAtEpoch (int k + 1) \<and>
         (val_losses s \<noteq> [] \<and> (\<forall>v\<in>set (val_losses s). 0 < v) \<and>
          Min (set (val_losses s)) < val_loss lg \<longrightarrow>
            (\<exists>g. g_loss (record_epoch s epoch lg) = Inr g \<and> 0 < g))"
proof -
  let ?before = "snd (run_epochs_with Q s0 0 (take k lgs))"
  let ?lg = "lgs ! k"
  let ?s = "record_epoch ?before (int k) ?lg"
  have earlier: "\<not> stop_training (snd (run_epochs_with Q s0 0 (take j lgs)))" if "j \<le> k" for j
  proof -
    have "\<forall>i<j. \<not> exceeds_target_with Q (snd (run_epochs_with Q s0 0 (take i lgs)))
            (int (0 + i)) (lgs ! i)"
      using first that by simp
    moreover have "j \<le> length lgs" using that k by simp
    ultimately show ?thesis using flag_stays_down [OF start] by blast
  qed
  from reached obtain sb where before: "run_epochs_with Q s0 0 (take k lgs) = (Inr (), sb)"
    by (cases "run_epochs_with Q s0 0 (take k lgs)") simp
  have "run_epochs_with Q s0 0 (take (Suc k) lgs) = on_epoch_end_with Q sb (int k) ?lg"
    using run_epochs_with_take_Suc [OF k, of Q s0 0] by (simp add: before)
  moreover have "?before = sb" by (simp add: before)
  ultimately have step:
    "run_epochs_with Q s0 0 (take (Suc k) lgs) = on_epoch_end_with Q ?before (int k) ?lg"
    by simp
  from excess obtain q where due: "due ?s (int k) = Inr True"
    and q: "Q ?s = Inr q" and above: "target ?s < q"
    by (auto simp: exceeds_target_with_def split: sum.splits)
  have call: "on_epoch_end_with Q ?before (int k) ?lg =
      (Inr (), ?s\<lparr>printed := printed ?s @ [TrainingProgress q, StoppedAtEpoch (int k + 1)],
                  stop_training := True\<rparr>)"
    using due q above by (simp add: on_epoch_end_with_def decide_with_def Let_def)
  have "fst (run_epochs_with Q s0 0 (take (Suc k) lgs)) = Inr ()"
    "stop_training (snd (run_epochs_with Q s0 0 (take (Suc k) lgs)))"
    "last (printed (snd (run_epochs_with Q s0 0 (take (Suc k) lgs)))) = StoppedAtEpoch (int k + 1)"
    unfolding step call by simp_all
  moreover have "\<exists>g. g_loss (record_epoch s epoch lg) = Inr g \<and> 0 < g"
    if "val_losses s \<noteq> []" "\<forall>v\<in>set (val_losses s). 0 < v"
      "Min (set (val_losses s)) < val_loss lg"
    using g_loss_positive [OF that] .
  ultimately show ?thesis using earlier by blast
qed

theorem stop_at_first_excess_witness:
  "\<not> stop_training (EarlyStop_init 6 2 (3 / 10)) \<and>
   fst (run_epochs_with progress_quotient (EarlyStop_init 6 2 (3 / 10)) 0
         (take 5 [logs_of 5 8, logs_of 4 4, logs_of 3 3, logs_of 2 2, logs_of 1 1, logs_of 1 3]))
     = Inr () \<and>
   exceeds_target_with progress_quotient
     (snd (run_epochs_with progress_quotient (EarlyStop_init 6 2 (3 / 10)) 0
         (take 5 [logs_of 5 8, logs_of 4 4, logs_of 3 3, logs_of 2 2, logs_of 1 1, logs_of 1 3])))
     (int 5)
     ([logs_of 5 8, logs_of 4 4, logs_of 3 3, logs_of 2 2, logs_of 1 1, logs_of 1 3] ! 5) \<and>
   \<not> stop_training
     (snd (run_epochs_with progress_quotient (EarlyStop_init 6 2 (3 / 10)) 0
         (take 5 [logs_of 5 8, logs_of 4 4, logs_of 3 3, logs_of 2 2, logs_of 1 1, logs_of 1 3]))) \<and>
   stop_training
     (snd (run_epochs_with progress_quotient (EarlyStop_init 6 2 (3 / 10)) 0
         (take (Suc 5)
           [logs_of 5 8, logs_of 4 4, logs_of 3 3, logs_of 2 2, logs_of 1 1, logs_of 1 3]))) \<and>
   (\<exists>g. g_loss
      (record_epoch
        ((EarlyStop_init 6 2 (3 / 10))\<lparr>val_losses := [8, 4, 3], train_losses := [5, 4, 3]\<rparr>)
        3 (logs_of 2 5))
      = Inr g \<and> 0 < g)"
proof -
  let ?s0 = "EarlyStop_init 6 2 (3 / 10)"
  let ?lgs = "[logs_of 5 8, logs_of 4 4, logs_of 3 3, logs_of 2 2, logs_of 1 1, logs_of 1 3]"
  let ?mid = "?s0\<lparr>val_losses := [8, 4, 3], train_losses := [5, 4, 3]\<rparr>"
  let ?quiet = "\<lambda>j. \<not> exceeds_target_with progress_quotient
      (snd (run_epochs_with progress_quotient ?s0 0 (take j ?lgs))) (int j) (?lgs ! j)"
  have start: "\<not> stop_training ?s0" by (simp add: EarlyStop_init_def)
  have k: "5 < length ?lgs" by simp
  have reached: "fst (run_epochs_with progress_quotient ?s0 0 (take 5 ?lgs)) = Inr ()"
    by code_simp
  have e0: "?quiet 0" by code_simp
  have e1: "?quiet 1" by code_simp
  have e2: "?quiet 2" by code_simp
  have e3: "?quiet 3" by code_simp
  have e4: "?quiet 4" by code_simp
  have first: "\<forall>j<5. ?quiet j"
  proof (intro allI impI)
    fix j :: nat
    assume "j < 5"
    then have "j = 0 \<or> j = 1 \<or> j = 2 \<or> j = 3 \<or> j = 4" by arith
    then show "?quiet j" using e0 e1 e2 e3 e4 by blast
  qed
  have excess: "exceeds_target_with progress_quotient
      (snd (run_epochs_with progress_quotient ?s0 0 (take 5 ?lgs))) (int 5) (?lgs ! 5)"
    by code_simp
  have v1: "val_losses ?mid \<noteq> []" by simp
  have v2: "\<forall>v\<in>set (val_losses ?mid). 0 < v" by simp
  have v3: "Min (set (val_losses ?mid)) < val_loss (logs_of 2 5)" by (simp add: logs_of_def)
  from stop_at_first_excess [OF start k reached first excess, of ?mid "logs_of 2 5" 3] v1 v2 v3
  have "\<not> stop_training (snd (run_epochs_with progress_quotient ?s0 0 (take 5 ?lgs))) \<and>
        stop_training (snd (run_epochs_with progress_quotient ?s0 0 (take (Suc 5) ?lgs))) \<and>
        (\<exists>g. g_loss (record_epoch ?mid 3 (logs_of 2 5)) = Inr g \<and> 0 < g)"
    by blast
  with start reached excess show ?thesis by blast
qed


section \<open>Dropout at all times\<close>

lemma dropout_layers:
  "AlwaysDropout r \<in> set (layers (create_model initial shape classes cfg))
     \<longleftrightarrow> bayesian cfg \<and> r = 1 / 4"
  by (auto simp: create_model_def Let_def)

text \<open>
  Claim C8.  \<open>AlwaysDropout.call\<close> returns the backend's dropout of its inputs when the rate
  is strictly between 0 and 1 and its inputs unchanged otherwise, and the training flag has
  no influence on the result.  \<open>create_model\<close> puts such layers into the network if and
  only if the configuration's \<open>bayesian\<close> flag is set, and each of them has a rate strictly
  between 0 and 1.
\<close>

theorem always_dropout:
  "(0 < rate \<and> rate < 1 \<longrightarrow>
      AlwaysDropout_call gns rate seed inputs training
        = BackendDropout inputs rate (gns inputs) seed) \<and>
   (\<not> (0 < rate \<and> rate < 1) \<longrightarrow>
      AlwaysDropout_call gns rate seed inputs training = inputs) \<and>
   AlwaysDropout_call gns rate seed inputs training
     = AlwaysDropout_call gns rate seed inputs training' \<and>
   ((\<exists>r. AlwaysDropout r \<in> set (layers (create_model initial shape classes cfg)))
      \<longleftrightarrow> bayesian cfg) \<and>
   (\<forall>r. AlwaysDropout r \<in> set (layers (create_model initial shape classes cfg))
      \<longrightarrow> 0 < r \<and> r < 1)"
proof -
  have "(\<exists>r. AlwaysDropout r \<in> set (layers (create_model initial shape classes cfg)))
      \<longleftrightarrow> bayesian cfg"
    unfolding dropout_layers by blast
  moreover have "\<forall>r. AlwaysDropout r \<in> set (layers (create_model initial shape classes cfg))
      \<longrightarrow> 0 < r \<and> r < 1"
    by (simp add: dropout_layers)
  ultimately show ?thesis by (simp add: AlwaysDropout_call_def)
qed

theorem always_dropout_witness:
  "AlwaysDropout_call (\<lambda>x. None) (1 / 4) None (Given (0::nat)) (Some False)
     = BackendDropout (Given 0) (1 / 4) None None \<and>
   AlwaysDropout_call (\<lambda>x. None) 1 None (Given (0::nat)) (Some True) = Given 0 \<and>
   AlwaysDropout (1 / 4)
     \<in> set (layers (create_model (\<lambda>ls. 0::nat) [27, 27, 3] 4 (example_config True False ''active''))) \<and>
   (0::real) < 1 / 4 \<and> (1::real) / 4 < 1"
proof -
  have a: "(0::real) < 1 / 4 \<and> (1::real) / 4 < 1" by simp
  have b: "\<not> ((0::real) < 1 \<and> (1::real) < 1)" by simp
  have c: "AlwaysDropout (1 / 4)
     \<in> set (layers (create_model (\<lambda>ls. 0::nat) [27, 27, 3] 4 (example_config True False ''active'')))"
    by (simp add: create_model_def example_config_def)
  from always_dropout [of "1 / 4" "\<lambda>x. None" None "Given (0::nat)" "Some False" None
      "\<lambda>ls. 0::nat" "[27, 27, 3]" 4 "example_config True False ''active''"] a
  have d: "AlwaysDropout_call (\<lambda>x. None) (1 / 4) None (Given (0::nat)) (Some False)
     = BackendDropout (Given 0) (1 / 4) None None" by blast
  from always_dropout [of 1 "\<lambda>x. None" None "Given (0::nat)" "Some True" None
      "\<lambda>ls. 0::nat" "[27, 27, 3]" 4 "example_config True False ''active''"] b
  have e: "AlwaysDropout_call (\<lambda>x. None) 1 None (Given (0::nat)) (Some True) = Given 0"
    by blast
  from a c d e show ?thesis by blast
qed


section \<open>Copying a model\<close>

lemma Model_log_fields [simp]:
  "graph (Model_log cfg msg w) = graph w"
  "load_calls (Model_log cfg msg w) = load_calls w"
  "pickled (Model_log cfg msg w) = pickled w"
  by (simp_all add: Model_log_def Let_def)

text \<open>
  Claim C10.  \<open>Model.__copy__\<close> returns the model that \<open>Model.__init__\<close> builds from the
  same configuration object, whatever the world was before; its weights are those the
  initialisers give for its layers; the copy is the same whatever weights the original
  holds, so trained weights are not carried over; and afterwards the default graph holds
  the copy's layers only.
\<close>

theorem copy_is_fresh:
  "fst (Model_copy fw self w) = fst (Model_init fw (config self) w') \<and>
   config (fst (Model_copy fw self w)) = config self \<and>
   weights (model (fst (Model_copy fw self w)))
     = initial_weights fw (layers (model (fst (Model_copy fw self w)))) \<and>
   Model_copy fw (self\<lparr>model := (model self)\<lparr>weights := trained\<rparr>\<rparr>) w = Model_copy fw self w \<and>
   graph (snd (Model_copy fw self w)) = layers (model (fst (Model_copy fw self w)))"
  by (simp add: Model_copy_def Model_init_def create_model_def Let_def)


section \<open>Training\<close>

lemma restore_weights_fields:
  "config (fst (snd (restore_weights fw self w))) = config self"
  "pickled (snd (snd (restore_weights fw self w))) = pickled w"
  "load_calls (snd (snd (restore_weights fw self w))) =
     (if restore_due fw (config self)
      then load_calls w @ [model_path (config self) @ ''/weights''] else load_calls w)"
  by (simp_all add: restore_weights_def Let_def split: option.splits)

lemma restore_weights_skipped:
  "\<not> restore_due fw (config self) \<Longrightarrow> restore_weights fw self w = (Inr (), self, w)"
  by (simp add: restore_weights_def)

lemma train_load_calls:
  "load_calls (snd (snd (train fw self experiment w))) =
     load_calls (snd (snd (restore_weights fw self w)))"
  by (cases "restore_weights fw self w")
     (auto simp: train_def Let_def split: sum.splits option.splits prod.splits)

lemma isabs_history_path: "isabs (history_path experiment)"
  by (simp add: isabs_def history_path_def)

lemma train_without_restore:
  assumes "\<not> restore_due fw (config self)"
  shows "train fw self experiment w =
     (case fit_generator fw (weights (model self)) (max_epochs (config self))
             (train_callback (config self)) of
        None \<Rightarrow> (Inl FitError, self, w)
      | Some (ws, history) \<Rightarrow>
          (let self2 = self\<lparr>model := (model self)\<lparr>weights := ws\<rparr>\<rparr>
           in if open_wb fw (history_path experiment)
              then (Inr (), self2,
                    w\<lparr>pickled := (pickled w)(history_path experiment \<mapsto> history)\<rparr>)
              else (Inl OpenError, self2, w)))"
  by (simp add: train_def restore_weights_skipped [OF assms])

lemma example_model_fields:
  "config example_model = example_config False True ''active''"
  "weights (model example_model) = 0"
  by (simp_all add: example_model_def Model_init_def create_model_def Let_def
      example_framework_def)

lemma Model_init_fields:
  "config (fst (Model_init fw cfg w0)) = cfg"
  "weights (model (fst (Model_init fw cfg w0)))
     = initial_weights fw (layers (model (fst (Model_init fw cfg w0))))"
  by (simp_all add: Model_init_def create_model_def Let_def)

text \<open>
  Claim C7, as the code has it.  \<open>Model.train\<close> calls \<open>load_weights\<close>, once and on the
  path \<open>model_path + '/weights'\<close>, if and only if model tuning is on, the mode is not
  \<open>supervised\<close> and \<open>model_path\<close> is a directory.  When it is not a directory no load
  is attempted, no load error can arise, and the fit is run from the weights the model
  object holds at the call: if the fit raises, \<open>train\<close> raises with the object and the
  world untouched, and otherwise the object ends with the weights the fit returns.  For a
  newly built model the weights the fit is run from are those the initialisers give for
  its layers.
\<close>

theorem load_only_when_due:
  "load_calls (snd (snd (train fw self experiment w))) =
     (if model_tuning (config self) \<and> mode (config self) \<noteq> ''supervised'' \<and>
         isdir fw (model_path (config self))
      then load_calls w @ [model_path (config self) @ ''/weights'']
      else load_calls w) \<and>
   (\<not> isdir fw (model_path (config self)) \<longrightarrow>
      load_calls (snd (snd (train fw self experiment w))) = load_calls w \<and>
      fst (train fw self experiment w) \<noteq> Inl LoadWeightsError \<and>
      (fit_generator fw (weights (model self)) (max_epochs (config self))
          (train_callback (config self)) = None \<longrightarrow>
         train fw self experiment w = (Inl FitError, self, w)) \<and>
      (\<forall>ws h. fit_generator fw (weights (model self)) (max_epochs (config self))
          (train_callback (config self)) = Some (ws, h) \<longrightarrow>
         weights (model (fst (snd (train fw self experiment w)))) = ws)) \<and>
   (\<not> isdir fw (model_path cfg) \<longrightarrow>
      (\<forall>ws h. fit_generator fw
          (initial_weights fw (layers (model (fst (Model_init fw cfg w0)))))
          (max_epochs cfg) (train_callback cfg) = Some (ws, h) \<longrightarrow>
         weights (model (fst (snd (train fw (fst (Model_init fw cfg w0)) experiment w))))
           = ws))"
proof -
  have calls: "load_calls (snd (snd (train fw self experiment w))) =
     (if model_tuning (config self) \<and> mode (config self) \<noteq> ''supervised'' \<and>
         isdir fw (model_path (config self))
      then load_calls w @ [model_path (config self) @ ''/weights'']
      else load_calls w)"
    by (simp add: train_load_calls restore_weights_fields restore_due_def)
  have held: "load_calls (snd (snd (train fw m experiment w))) = load_calls w \<and>
      fst (train fw m experiment w) \<noteq> Inl LoadWeightsError \<and>
      (fit_generator fw (weights (model m)) (max_epochs (config m))
          (train_callback (config m)) = None \<longrightarrow>
         train fw m experiment w = (Inl FitError, m, w)) \<and>
      (\<forall>ws h. fit_generator fw (weights (model m)) (max_epochs (config m))
          (train_callback (config m)) = Some (ws, h) \<longrightarrow>
         weights (model (fst (snd (train fw m experiment w)))) = ws)"
    if "\<not> isdir fw (model_path (config m))" for m
  proof -
    from that have skip: "\<not> restore_due fw (config m)" by (simp add: restore_due_def)
    show ?thesis
      by (auto simp: train_without_restore [OF skip] Let_def split: option.splits)
  qed
  have new: "\<forall>ws h. fit_generator fw
          (initial_weights fw (layers (model (fst (Model_init fw cfg w0)))))
          (max_epochs cfg) (train_callback cfg) = Some (ws, h) \<longrightarrow>
         weights (model (fst (snd (train fw (fst (Model_init fw cfg w0)) experiment w)))) = ws"
    if "\<not> isdir fw (model_path cfg)"
    using held [of "fst (Model_init fw cfg w0)"] that
    unfolding Model_init_fields [symmetric] by (simp add: Model_init_fields(1))
  from calls held [of self] new show ?thesis by blast
qed

theorem load_only_when_due_witness:
  "\<not> isdir (example_framework False) (model_path (config example_model)) \<and>
   load_calls (snd (snd (train (example_framework False) example_model ''0'' empty_world))) = [] \<and>
   fit_generator (example_framework False) (weights (model example_model))
       (max_epochs (config example_model)) (train_callback (config example_model))
     = Some (1, 100) \<and>
   weights (model (fst (snd (train (example_framework False) example_model ''0'' empty_world)))) = 1 \<and>
   load_calls (snd (snd (train (example_framework True) example_model ''0'' empty_world)))
     = [''model/weights''] \<and>
   \<not> isdir (example_framework False) (model_path (example_config False True ''active'')) \<and>
   weights (model (fst (snd (train (example_framework False)
      (fst (Model_init (example_framework False) (example_config False True ''active'')
             empty_world)) ''0'' empty_world)))) = 1"
proof -
  let ?fw = "example_framework False"
  let ?cfg = "example_config False True ''active''"
  have nodir: "\<not> isdir ?fw (model_path (config example_model))"
    by (simp add: example_framework_def)
  have nodir': "\<not> isdir ?fw (model_path ?cfg)"
    by (simp add: example_framework_def)
  have fit: "fit_generator ?fw (weights (model example_model))
       (max_epochs (config example_model)) (train_callback (config example_model))
     = Some (1, 100)"
    by (simp add: example_framework_def example_model_fields example_config_def)
  have fit': "fit_generator ?fw
       (initial_weights ?fw (layers (model (fst (Model_init ?fw ?cfg empty_world)))))
       (max_epochs ?cfg) (train_callback ?cfg) = Some (1, 100)"
    by (simp add: example_framework_def example_config_def)
  from load_only_when_due [of ?fw example_model "''0''" empty_world ?cfg empty_world]
    nodir fit nodir' fit'
  have "load_calls (snd (snd (train ?fw example_model ''0'' empty_world))) = load_calls empty_world \<and>
        weights (model (fst (snd (train ?fw example_model ''0'' empty_world)))) = 1 \<and>
        weights (model (fst (snd (train ?fw (fst (Model_init ?fw ?cfg empty_world))
           ''0'' empty_world)))) = 1"
    by blast
  moreover have "load_calls (snd (snd (train (example_framework True) example_model ''0'' empty_world)))
     = [''model/weights'']"
    using load_only_when_due [of "example_framework True" example_model "''0''" empty_world]
    by (simp add: example_framework_def example_model_fields example_config_def empty_world_def)
  ultimately show ?thesis using nodir nodir' fit by (simp add: empty_world_def)
qed

text \<open>
  The weights are not freshly initialised at every call: \<open>train\<close> does not build the
  network again.  A model trained once holds the weights of that fit (here 1, where the
  initialisers give 0), and a second call of \<open>train\<close>, with no directory at the model
  path and so no load, runs its fit from them and ends with 2, where a fit from the initial
  weights would end with 1.
\<close>

theorem trained_model_trains_on:
  "\<not> isdir (example_framework False) (model_path (config (fst example_trained))) \<and>
   weights (model (fst example_trained)) = 1 \<and>
   initial_weights (example_framework False) (layers (model (fst example_trained))) = 0 \<and>
   load_calls (snd (snd (train (example_framework False) (fst example_trained) ''1''
      (snd example_trained)))) = [] \<and>
   fit_generator (example_framework False) (weights (model (fst example_trained)))
       (max_epochs (config (fst example_trained))) (train_callback (config (fst example_trained)))
     = Some (2, 100) \<and>
   fit_generator (example_framework False)
       (initial_weights (example_framework False) (layers (model (fst example_trained))))
       (max_epochs (config (fst example_trained))) (train_callback (config (fst example_trained)))
     = Some (1, 100) \<and>
   fst (train (example_framework False) (fst example_trained) ''1'' (snd example_trained))
     = Inr () \<and>
   weights (model (fst (snd (train (example_framework False) (fst example_trained) ''1''
      (snd example_trained))))) = 2"
proof -
  have t1: "example_trained =
     (example_model\<lparr>model := (model example_model)\<lparr>weights := 1\<rparr>\<rparr>,
      empty_world\<lparr>pickled := (pickled empty_world)(history_path ''0'' \<mapsto> 100)\<rparr>)"
    by (simp add: example_trained_def train_def restore_weights_def restore_due_def
        example_framework_def example_model_fields example_config_def Let_def)
  show ?thesis
    unfolding t1
    by (simp add: train_def restore_weights_def restore_due_def example_framework_def
        example_model_fields example_config_def Let_def empty_world_def)
qed

text \<open>
  Claim C6, as the code has it.  When \<open>Model.train\<close> returns, the history dictionary the
  fit returned has been pickled to the path \<open>'/History/' + experiment\<close>, which is an
  absolute path.
\<close>

theorem history_is_pickled:
  "(fst (train fw self experiment w) = Inr () \<longrightarrow>
      (\<exists>ws0 ws h.
         fit_generator fw ws0 (max_epochs (config self)) (train_callback (config self))
           = Some (ws, h) \<and>
         pickled (snd (snd (train fw self experiment w)))
           = (pickled w)(history_path experiment \<mapsto> h))) \<and>
   history_path experiment = ''/History/'' @ experiment \<and>
   isabs (history_path experiment)"
proof -
  obtain r self1 w1 where restored: "restore_weights fw self w = (r, self1, w1)"
    by (cases "restore_weights fw self w")
  have cfg: "config self1 = config self" and pk: "pickled w1 = pickled w"
    using restore_weights_fields(1,2) [of fw self w] restored by simp_all
  have "\<exists>ws0 ws h.
         fit_generator fw ws0 (max_epochs (config self)) (train_callback (config self))
           = Some (ws, h) \<and>
         pickled (snd (snd (train fw self experiment w)))
           = (pickled w)(history_path experiment \<mapsto> h)"
    if "fst (train fw self experiment w) = Inr ()"
    using that restored cfg pk
    by (auto simp: train_def Let_def split: sum.splits option.splits if_splits)
  then show ?thesis by (simp add: isabs_history_path) (simp add: history_path_def)
qed

theorem history_is_pickled_witness:
  "fst (train (example_framework False) example_model ''0'' empty_world) = Inr () \<and>
   pickled (snd (snd (train (example_framework False) example_model ''0'' empty_world)))
     = [history_path ''0'' \<mapsto> 100] \<and>
   isabs (history_path ''0'')"
proof -
  let ?fw = "example_framework False"
  let ?t = "train ?fw example_model ''0'' empty_world"
  have ran: "fst ?t = Inr ()"
    by (simp add: train_def restore_weights_def restore_due_def example_framework_def Let_def)
  with history_is_pickled [of ?fw example_model "''0''" empty_world]
  obtain ws0 ws h where
    fit: "fit_generator ?fw ws0 (max_epochs (config example_model))
            (train_callback (config example_model)) = Some (ws, h)"
    and pk: "pickled (snd (snd ?t)) = (pickled empty_world)(history_path ''0'' \<mapsto> h)"
    and ab: "isabs (history_path ''0'')"
    by blast
  from fit have "h = 100"
    by (simp add: example_framework_def example_model_fields example_config_def)
  with pk ran ab show ?thesis by (simp add: empty_world_def)
qed

text \<open>
  The path is not a relative one: for the default experiment \<open>0\<close> it is \<open>/History/0\<close>,
  and that is where a run of \<open>train\<close> leaves the pickle.
\<close>

theorem history_path_is_absolute:
  "history_path ''0'' = ''/History/0'' \<and>
   isabs (history_path ''0'') \<and>
   fst (train (example_framework False) example_model ''0'' empty_world) = Inr () \<and>
   dom (pickled (snd (snd (train (example_framework False) example_model ''0'' empty_world))))
     = {''/History/0''}"
  by (simp add: train_def restore_weights_def restore_due_def example_framework_def Let_def
      history_path_def isabs_def empty_world_def)

end
